theory Spec2Isabelle
  imports Main "HOL-Library.Word" "HOL-Library.Sublist"
begin

section \<open>JavaScript values shared by \<^verbatim>\<open>static/script.js\<close> and \<^verbatim>\<open>static/app.js\<close>\<close>

subsection \<open>Strings\<close>

text \<open>
  A JavaScript string is a sequence of UTF-16 code units. \<^verbatim>\<open>+\<close> on strings is list
  append, \<^verbatim>\<open>.length\<close> is the list's length and the empty string is the only falsy one.
  \<open>ascii\<close> writes an ASCII literal of the source as code units; the few symbols of the
  source outside ASCII are written by their code units.
\<close>

type_synonym code_unit = "16 word"

type_synonym jsstring = "code_unit list"

definition ascii :: "string \<Rightarrow> jsstring" where
  "ascii s = map of_char s"

text \<open>
  \<^verbatim>\<open>String.prototype.trim\<close> removes, at both ends, the code units of ECMAScript's
  WhiteSpace and LineTerminator productions: TAB, VT, FF, SP, NBSP, ZWNBSP, the
  Unicode space separators, LF, CR, LS and PS. All of them are single code units.
\<close>

definition js_whitespace :: "code_unit \<Rightarrow> bool" where
  "js_whitespace c \<longleftrightarrow>
     c \<in> {0x09, 0x0A, 0x0B, 0x0C, 0x0D, 0x20, 0xA0, 0x1680, 0x2028, 0x2029,
           0x202F, 0x205F, 0x3000, 0xFEFF} \<or> (0x2000 \<le> c \<and> c \<le> 0x200A)"

definition trim :: "jsstring \<Rightarrow> jsstring" where
  "trim s = rev (dropWhile js_whitespace (rev (dropWhile js_whitespace s)))"

subsection \<open>Errors, calls into the browser, effects\<close>

text \<open>
  \<open>TypeError\<close>: a property read or a method call on \<^verbatim>\<open>undefined\<close> or \<^verbatim>\<open>null\<close>, and a
  \<^verbatim>\<open>fetch\<close> that fails on the network. \<open>SyntaxError\<close>: \<^verbatim>\<open>response.json()\<close> on a body
  that is not JSON. \<open>InvalidStateError\<close>: \<^verbatim>\<open>recognition.start()\<close> on an engine that is
  started already. \<open>MediaError\<close>: \<^verbatim>\<open>getUserMedia\<close> rejected.
\<close>

datatype js_error = TypeError | SyntaxError | InvalidStateError | MediaError

text \<open>
  What a method of a browser object did when the program called it. The program cannot
  see the engine's state, so the answer of \<^verbatim>\<open>recognition.start()\<close> is an input of the
  click that calls it.
\<close>

datatype call_result = Returned | Raised js_error

type_synonym chunk = "8 word list"

text \<open>\<^verbatim>\<open>new Blob(parts, {type})\<close>: the parts in order, and the MIME type.\<close>

datatype blob = Blob (parts: "chunk list") (mime: string)

text \<open>
  Everything a handler does to the world outside the program's variables and page
  elements, in the order it does it. \<open>PostJson url t\<close> is
  \<^verbatim>\<open>fetch(url, {method: "POST", body: JSON.stringify({text: t})})\<close>: the body has the one
  member \<^verbatim>\<open>text\<close>. \<open>PostAudio url b\<close> is the \<^verbatim>\<open>fetch\<close> of a form whose one field
  \<^verbatim>\<open>audio\<close> is the blob \<open>b\<close>. \<open>Uncaught e\<close> is an exception that leaves the handler, or
  a rejection nothing handles.
\<close>

datatype effect =
    Alert jsstring
  | RecognitionStart
  | RecognitionStop
  | GetUserMedia
  | MediaRecorderStart
  | MediaRecorderStop
  | PostJson string jsstring
  | PostAudio string blob
  | Uncaught js_error

subsection \<open>Responses\<close>

text \<open>
  A member of a parsed JSON body, as the program reads it: \<open>Undefined\<close> when the body has
  no such member, \<open>Null\<close>, a string, or any other value, kept as the string JavaScript
  converts it to.
\<close>

datatype jsval = Undefined | Null | Str jsstring | Other jsstring

text \<open>
  The value \<^verbatim>\<open>data\<close> that \<^verbatim>\<open>await response.json()\<close> yields: \<^verbatim>\<open>null\<close>, on which every
  property read raises, or any other value, given by its properties.
\<close>

datatype body = Null_body | Object "string \<Rightarrow> jsval"

text \<open>
  How a request ends: the \<^verbatim>\<open>fetch\<close> promise rejects, or \<^verbatim>\<open>response.json()\<close> rejects, or
  the body parses. An HTTP error status does not reject \<^verbatim>\<open>fetch\<close>: it is one of the last
  two, by its body.
\<close>

datatype fetched = Rejected | Unparsable | Parsed body

text \<open>\<^verbatim>\<open>"..." + v\<close>: the string conversion of the right operand.\<close>

fun to_string :: "jsval \<Rightarrow> jsstring" where
  "to_string Undefined = ascii ''undefined''"
| "to_string Null = ascii ''null''"
| "to_string (Str s) = s"
| "to_string (Other s) = s"

text \<open>
  \<^verbatim>\<open>el.innerHTML = v\<close> and \<^verbatim>\<open>el.innerText = v\<close>: both attributes convert \<^verbatim>\<open>null\<close> to the
  empty string and everything else as \<open>to_string\<close> does.
\<close>

fun dom_string :: "jsval \<Rightarrow> jsstring" where
  "dom_string Null = []"
| "dom_string v = to_string v"

subsection \<open>Recognition events\<close>

text \<open>
  A \<^verbatim>\<open>SpeechRecognitionResult\<close>: its \<^verbatim>\<open>isFinal\<close> flag and the transcripts of its
  alternatives, best first. \<^verbatim>\<open>event.results[i][0].transcript\<close> raises \<open>TypeError\<close> on a
  result with no alternative.
\<close>

record recognition_result =
  isFinal :: bool
  alternatives :: "jsstring list"

record recognition_event =
  resultIndex :: nat
  results :: "recognition_result list"

definition best_transcript :: "recognition_result \<Rightarrow> js_error + jsstring" where
  "best_transcript r = (case alternatives r of [] \<Rightarrow> Inl TypeError | t # _ \<Rightarrow> Inr t)"

text \<open>The prebuilt configuration of the recognition object.\<close>

record recognizer =
  continuous :: bool
  interimResults :: bool
  lang :: "jsstring option"

text \<open>A run: the handlers of the events in order, their effects appended.\<close>

fun run :: "('e \<Rightarrow> 's \<Rightarrow> 's \<times> effect list) \<Rightarrow> 's \<Rightarrow> 'e list \<Rightarrow> 's \<times> effect list" where
  "run step s [] = (s, [])"
| "run step s (e # es) =
     (case step e s of (s1, fx) \<Rightarrow> (case run step s1 es of (s2, fx2) \<Rightarrow> (s2, fx @ fx2)))"

section \<open>\<^verbatim>\<open>static/script.js\<close>\<close>

text \<open>
  The variables \<^verbatim>\<open>recognition\<close> (\<open>None\<close> is \<^verbatim>\<open>undefined\<close>) and \<^verbatim>\<open>recognizing\<close>, and the
  contents of the three page elements the script writes: \<^verbatim>\<open>original\<close> (its
  \<^verbatim>\<open>innerText\<close>), \<^verbatim>\<open>corrected\<close> (the markup last assigned to its \<^verbatim>\<open>innerHTML\<close>) and
  \<^verbatim>\<open>confidence\<close> (its \<^verbatim>\<open>innerText\<close>). The page is taken to have the elements the script
  looks up.
\<close>

record script_state =
  recognition :: "recognizer option"
  recognizing :: bool
  original :: jsstring
  corrected :: jsstring
  confidence :: jsstring

text \<open>
  Lines 1 to 10. \<open>has_webkit\<close> is \<^verbatim>\<open>"webkitSpeechRecognition" in window\<close>; \<open>page\<close> gives
  the elements' contents when the script loads.
\<close>

definition script_load :: "bool \<Rightarrow> script_state \<Rightarrow> script_state \<times> effect list" where
  "script_load has_webkit page =
     (if \<not> has_webkit
      then (page\<lparr>recognition := None, recognizing := False\<rparr>,
            [Alert (ascii ''Your browser does not support Speech Recognition.'')])
      else (page\<lparr>recognition :=
                    Some \<lparr>continuous = True, interimResults = True,
                          lang = Some (ascii ''en-US'')\<rparr>,
                  recognizing := False\<rparr>, []))"

text \<open>
  Lines 16 to 22: the loop of \<^verbatim>\<open>onresult\<close>, from index \<open>i\<close>, with the two accumulators
  \<^verbatim>\<open>interim_transcript\<close> and \<^verbatim>\<open>final_transcript\<close>.
\<close>

function script_loop ::
  "recognition_event \<Rightarrow> nat \<Rightarrow> jsstring \<Rightarrow> jsstring \<Rightarrow> js_error + (jsstring \<times> jsstring)" where
  "script_loop event i interim_transcript final_transcript =
     (if i < length (results event)
      then (case best_transcript (results event ! i) of
              Inl e \<Rightarrow> Inl e
            | Inr t \<Rightarrow>
                if isFinal (results event ! i)
                then script_loop event (Suc i) interim_transcript (final_transcript @ t)
                else script_loop event (Suc i) (interim_transcript @ t) final_transcript)
      else Inr (interim_transcript, final_transcript))"
  by pat_completeness auto
termination
  by (relation "measure (\<lambda>(event, i, _, _). length (results event) - i)") auto

declare script_loop.simps [simp del]

text \<open>Lines 13 to 24: \<^verbatim>\<open>display_text = final_transcript || interim_transcript\<close>.\<close>

definition script_display :: "recognition_event \<Rightarrow> js_error + jsstring" where
  "script_display event =
     (case script_loop event (resultIndex event) [] [] of
        Inl e \<Rightarrow> Inl e
      | Inr (interim_transcript, final_transcript) \<Rightarrow>
          Inr (if final_transcript \<noteq> [] then final_transcript else interim_transcript))"

text \<open>
  Lines 12 to 38, up to the call of \<^verbatim>\<open>fetch\<close>. The handler exists only on a recognition
  object, so without one no event reaches it.
\<close>

definition script_onresult :: "recognition_event \<Rightarrow> script_state \<Rightarrow> script_state \<times> effect list" where
  "script_onresult event s =
     (case recognition s of
        None \<Rightarrow> (s, [])
      | Some _ \<Rightarrow>
          (case script_display event of
             Inl e \<Rightarrow> (s, [Uncaught e])
           | Inr display_text \<Rightarrow>
               (s\<lparr>original := display_text\<rparr>, [PostJson ''/process_text'' display_text])))"

text \<open>
  Lines 33 to 37: the two \<^verbatim>\<open>then\<close> callbacks, run when the request ends. The chain has
  no \<^verbatim>\<open>catch\<close>: a rejection, and the \<open>TypeError\<close> of reading \<^verbatim>\<open>data.highlighted\<close> on
  \<^verbatim>\<open>null\<close>, go unhandled and no element is written.
\<close>

definition script_response :: "fetched \<Rightarrow> script_state \<Rightarrow> script_state \<times> effect list" where
  "script_response r s =
     (case r of
        Rejected \<Rightarrow> (s, [Uncaught TypeError])
      | Unparsable \<Rightarrow> (s, [Uncaught SyntaxError])
      | Parsed Null_body \<Rightarrow> (s, [Uncaught TypeError])
      | Parsed (Object data) \<Rightarrow>
          (s\<lparr>corrected := dom_string (data ''highlighted''),
             confidence := dom_string (data ''confidence'')\<rparr>, []))"

text \<open>
  Lines 41 to 46. \<open>answer\<close> is what \<^verbatim>\<open>recognition.start()\<close> does if it is called; when it
  raises, the assignment after it is not reached.
\<close>

definition script_start_click :: "call_result \<Rightarrow> script_state \<Rightarrow> script_state \<times> effect list" where
  "script_start_click answer s =
     (if \<not> recognizing s
      then (case recognition s of
              None \<Rightarrow> (s, [Uncaught TypeError])
            | Some _ \<Rightarrow>
                (case answer of
                   Raised e \<Rightarrow> (s, [RecognitionStart, Uncaught e])
                 | Returned \<Rightarrow> (s\<lparr>recognizing := True\<rparr>, [RecognitionStart])))
      else (s, []))"

text \<open>Lines 48 to 53. \<^verbatim>\<open>recognition.stop()\<close> does not raise on an engine.\<close>

definition script_stop_click :: "script_state \<Rightarrow> script_state \<times> effect list" where
  "script_stop_click s =
     (if recognizing s
      then (case recognition s of
              None \<Rightarrow> (s, [Uncaught TypeError])
            | Some _ \<Rightarrow> (s\<lparr>recognizing := False\<rparr>, [RecognitionStop]))
      else (s, []))"

text \<open>
  What can happen to the page of \<^verbatim>\<open>script.js\<close>. \<open>Response n r\<close> is the end \<open>r\<close> of the
  request that was the \<open>n\<close>-th to be issued; the callbacks have no such number and
  \<open>script_step\<close> does not read it.
\<close>

datatype script_event =
    StartClick call_result
  | StopClick
  | Result recognition_event
  | Response nat fetched

fun script_step :: "script_event \<Rightarrow> script_state \<Rightarrow> script_state \<times> effect list" where
  "script_step (StartClick answer) s = script_start_click answer s"
| "script_step StopClick s = script_stop_click s"
| "script_step (Result event) s = script_onresult event s"
| "script_step (Response n r) s = script_response r s"

section \<open>\<^verbatim>\<open>static/app.js\<close>\<close>

text \<open>The \<^verbatim>\<open>state\<close> attribute of a \<^verbatim>\<open>MediaRecorder\<close>, as far as the program drives it.\<close>

datatype recorder = Recording | Inactive

text \<open>
  The variables \<^verbatim>\<open>recognition\<close>, \<^verbatim>\<open>mediaRecorder\<close> (\<open>None\<close> is \<^verbatim>\<open>undefined\<close>) and
  \<^verbatim>\<open>audioChunks\<close>, and the \<^verbatim>\<open>textContent\<close> of the two page elements \<^verbatim>\<open>speechText\<close> and
  \<^verbatim>\<open>correctedText\<close>. There is no other element: the result of the audio analysis is
  appended to \<^verbatim>\<open>correctedText\<close>.
\<close>

record app_state =
  app_recognition :: "recognizer option"
  mediaRecorder :: "recorder option"
  audioChunks :: "chunk list"
  speechText :: jsstring
  correctedText :: jsstring

text \<open>
  Lines 6 to 15 and 74 to 76. \<open>has_standard\<close> and \<open>has_webkit\<close> say whether
  \<^verbatim>\<open>window.SpeechRecognition\<close> and \<^verbatim>\<open>window.webkitSpeechRecognition\<close> are there. All the
  handlers are installed inside the \<^verbatim>\<open>if\<close>: without a recognition object there is none.
\<close>

definition app_load :: "bool \<Rightarrow> bool \<Rightarrow> app_state \<Rightarrow> app_state \<times> effect list" where
  "app_load has_standard has_webkit page =
     (if has_standard \<or> has_webkit
      then (page\<lparr>app_recognition :=
                    Some \<lparr>continuous = True, interimResults = True, lang = None\<rparr>,
                  mediaRecorder := None, audioChunks := []\<rparr>, [])
      else (page\<lparr>app_recognition := None, mediaRecorder := None, audioChunks := []\<rparr>,
            [Alert (0x274C # ascii
               '' Speech Recognition not supported in this browser. Use Chrome.'')]))"

text \<open>Lines 18 to 21: the loop of \<^verbatim>\<open>onresult\<close>, from index \<open>i\<close>.\<close>

function app_loop :: "recognition_event \<Rightarrow> nat \<Rightarrow> jsstring \<Rightarrow> js_error + jsstring" where
  "app_loop event i transcript =
     (if i < length (results event)
      then (case best_transcript (results event ! i) of
              Inl e \<Rightarrow> Inl e
            | Inr t \<Rightarrow> app_loop event (Suc i) (transcript @ t))
      else Inr transcript)"
  by pat_completeness auto
termination
  by (relation "measure (\<lambda>(event, i, _). length (results event) - i)") auto

declare app_loop.simps [simp del]

text \<open>
  Lines 17 to 30: \<^verbatim>\<open>onresult\<close> up to the first \<^verbatim>\<open>await\<close>. An exception in an \<^verbatim>\<open>async\<close>
  function rejects its promise, which nothing handles.
\<close>

definition app_onresult :: "recognition_event \<Rightarrow> app_state \<Rightarrow> app_state \<times> effect list" where
  "app_onresult event s =
     (case app_recognition s of
        None \<Rightarrow> (s, [])
      | Some _ \<Rightarrow>
          (case app_loop event (resultIndex event) [] of
             Inl e \<Rightarrow> (s, [Uncaught e])
           | Inr transcript \<Rightarrow>
               (s\<lparr>speechText := transcript\<rparr>,
                if length (trim transcript) > 0 then [PostJson ''/correct'' transcript]
                else [])))"

text \<open>
  Lines 31 to 35: the rest of \<^verbatim>\<open>onresult\<close>, run when the request ends. The \<^verbatim>\<open>catch\<close>
  takes the rejection of \<^verbatim>\<open>fetch\<close>, the rejection of \<^verbatim>\<open>response.json()\<close> and the
  \<open>TypeError\<close> of reading \<^verbatim>\<open>data.corrected\<close> on \<^verbatim>\<open>null\<close>.
\<close>

definition grammar_error :: jsstring where
  "grammar_error = [0x26A0, 0xFE0F] @ ascii '' Grammar check error.''"

definition app_correct_response :: "fetched \<Rightarrow> app_state \<Rightarrow> app_state \<times> effect list" where
  "app_correct_response r s =
     (case r of
        Parsed (Object data) \<Rightarrow>
          (s\<lparr>correctedText := [0x2705, 0x20] @ to_string (data ''corrected'')\<rparr>, [])
      | _ \<Rightarrow> (s\<lparr>correctedText := grammar_error\<rparr>, []))"

text \<open>
  Lines 39 to 42: the click on the start button up to the \<^verbatim>\<open>await\<close>. \<open>answer\<close> is what
  \<^verbatim>\<open>recognition.start()\<close> does.
\<close>

definition app_start_click :: "call_result \<Rightarrow> app_state \<Rightarrow> app_state \<times> effect list" where
  "app_start_click answer s =
     (case app_recognition s of
        None \<Rightarrow> (s, [])
      | Some _ \<Rightarrow>
          (case answer of
             Raised e \<Rightarrow> (s, [RecognitionStart, Uncaught e])
           | Returned \<Rightarrow> (s, [RecognitionStart, GetUserMedia])))"

text \<open>
  Lines 43 to 66: the rest of the click, run when \<^verbatim>\<open>getUserMedia\<close> resolves. The new
  recorder gets the two handlers below and is started; the constructor and
  \<^verbatim>\<open>start()\<close> are taken to return.
\<close>

definition app_media_granted :: "app_state \<Rightarrow> app_state \<times> effect list" where
  "app_media_granted s =
     (case app_recognition s of
        None \<Rightarrow> (s, [])
      | Some _ \<Rightarrow> (s\<lparr>mediaRecorder := Some Recording, audioChunks := []\<rparr>, [MediaRecorderStart]))"

text \<open>\<^verbatim>\<open>getUserMedia\<close> rejects: the click's promise rejects and nothing else happens.\<close>

definition app_media_denied :: "app_state \<Rightarrow> app_state \<times> effect list" where
  "app_media_denied s =
     (case app_recognition s of None \<Rightarrow> (s, []) | Some _ \<Rightarrow> (s, [Uncaught MediaError]))"

text \<open>
  Lines 46 to 48: \<^verbatim>\<open>ondataavailable\<close>. The handler is a property of a recorder, so it runs
  only once a recorder exists; it pushes onto the global \<^verbatim>\<open>audioChunks\<close>.
\<close>

definition app_ondataavailable :: "chunk \<Rightarrow> app_state \<Rightarrow> app_state \<times> effect list" where
  "app_ondataavailable data s =
     (case mediaRecorder s of
        None \<Rightarrow> (s, [])
      | Some _ \<Rightarrow> (s\<lparr>audioChunks := audioChunks s @ [data]\<rparr>, []))"

text \<open>Lines 50 to 56: \<^verbatim>\<open>onstop\<close> up to the first \<^verbatim>\<open>await\<close>.\<close>

definition app_onstop :: "app_state \<Rightarrow> app_state \<times> effect list" where
  "app_onstop s =
     (case mediaRecorder s of
        None \<Rightarrow> (s, [])
      | Some _ \<Rightarrow> (s, [PostAudio ''/emotion'' (Blob (audioChunks s) ''audio/wav'')]))"

text \<open>
  Lines 57 to 63: the rest of \<^verbatim>\<open>onstop\<close>, run when the request ends. Both branches append
  to \<^verbatim>\<open>correctedText\<close>, and \<^verbatim>\<open>audioChunks\<close> is emptied after either.
\<close>

definition emotion_line :: "jsval \<Rightarrow> jsstring" where
  "emotion_line v =
     [0x0A, 0xD83E, 0xDDE0] @ ascii '' Confidence Analysis: '' @ to_string v"

definition emotion_error :: jsstring where
  "emotion_error = [0x0A, 0x26A0, 0xFE0F] @ ascii '' Emotion detection failed.''"

definition app_emotion_response :: "fetched \<Rightarrow> app_state \<Rightarrow> app_state \<times> effect list" where
  "app_emotion_response r s =
     (case r of
        Parsed (Object data) \<Rightarrow>
          (s\<lparr>correctedText := correctedText s @ emotion_line (data ''emotion''),
             audioChunks := []\<rparr>, [])
      | _ \<Rightarrow> (s\<lparr>correctedText := correctedText s @ emotion_error, audioChunks := []\<rparr>, []))"

text \<open>
  Lines 69 to 72: the click on the stop button. \<^verbatim>\<open>mediaRecorder.stop()\<close> on
  \<^verbatim>\<open>undefined\<close> raises; on a recorder it makes it inactive. It is the handler's last
  statement, so whether a browser raises on an inactive recorder or ignores the call
  changes no variable.
\<close>

definition app_stop_click :: "app_state \<Rightarrow> app_state \<times> effect list" where
  "app_stop_click s =
     (case app_recognition s of
        None \<Rightarrow> (s, [])
      | Some _ \<Rightarrow>
          (case mediaRecorder s of
             None \<Rightarrow> (s, [RecognitionStop, Uncaught TypeError])
           | Some _ \<Rightarrow> (s\<lparr>mediaRecorder := Some Inactive\<rparr>, [RecognitionStop, MediaRecorderStop])))"

text \<open>
  What can happen to the page of \<^verbatim>\<open>app.js\<close>. \<open>CorrectResponse n r\<close> is the end \<open>r\<close> of the
  \<^verbatim>\<open>/correct\<close> request that was the \<open>n\<close>-th to be issued; the program has no such number
  and \<open>app_step\<close> does not read it.
\<close>

datatype app_event =
    AppStartClick call_result
  | MediaGranted
  | MediaDenied
  | DataAvailable chunk
  | RecorderStopped
  | EmotionResponse fetched
  | AppStopClick
  | AppResult recognition_event
  | CorrectResponse nat fetched

fun app_step :: "app_event \<Rightarrow> app_state \<Rightarrow> app_state \<times> effect list" where
  "app_step (AppStartClick answer) s = app_start_click answer s"
| "app_step MediaGranted s = app_media_granted s"
| "app_step MediaDenied s = app_media_denied s"
| "app_step (DataAvailable data) s = app_ondataavailable data s"
| "app_step RecorderStopped s = app_onstop s"
| "app_step (EmotionResponse r) s = app_emotion_response r s"
| "app_step AppStopClick s = app_stop_click s"
| "app_step (AppResult event) s = app_onresult event s"
| "app_step (CorrectResponse n r) s = app_correct_response r s"

section \<open>Vocabulary of the claims\<close>

text \<open>
  The entries of an event from \<^verbatim>\<open>resultIndex\<close> to the end, the transcript of an entry
  (that of its first alternative), and the events all of whose entries in range have
  one: the events a recognition engine delivers.
\<close>

definition in_range :: "recognition_event \<Rightarrow> recognition_result list" where
  "in_range event = drop (resultIndex event) (results event)"

definition transcript :: "recognition_result \<Rightarrow> jsstring" where
  "transcript r = hd (alternatives r)"

definition has_alternatives :: "recognition_event \<Rightarrow> bool" where
  "has_alternatives event \<longleftrightarrow> list_all (\<lambda>r. alternatives r \<noteq> []) (in_range event)"

text \<open>
  The concatenation, in order, of the transcripts of the final entries in range, and that
  of the entries that are not final.
\<close>

definition final_segment :: "recognition_event \<Rightarrow> jsstring" where
  "final_segment event = concat (map transcript (filter isFinal (in_range event)))"

definition interim_segment :: "recognition_event \<Rightarrow> jsstring" where
  "interim_segment event = concat (map transcript (filter (\<lambda>r. \<not> isFinal r) (in_range event)))"

text \<open>The chunks that a list of events delivers, in order.\<close>

fun chunks_of :: "app_event list \<Rightarrow> chunk list" where
  "chunks_of [] = []"
| "chunks_of (DataAvailable data # es) = data # chunks_of es"
| "chunks_of (_ # es) = chunks_of es"

text \<open>
  The events of one recording, from the moment \<^verbatim>\<open>getUserMedia\<close> resolved to the stop
  event: no other recorder is created among them, and no analysis request of an earlier
  recording ends once a chunk has been delivered (\<open>got\<close>). A browser fires
  \<^verbatim>\<open>dataavailable\<close> and \<^verbatim>\<open>stop\<close> one after the other in one task when the recorder was
  started without a timeslice, as line 66 does, so that no response falls in between.
\<close>

fun one_recording :: "bool \<Rightarrow> app_event list \<Rightarrow> bool" where
  "one_recording got [] = True"
| "one_recording got (MediaGranted # es) = False"
| "one_recording got (EmotionResponse r # es) = (\<not> got \<and> one_recording got es)"
| "one_recording got (DataAvailable data # es) = one_recording True es"
| "one_recording got (_ # es) = one_recording got es"

subsection \<open>Concrete inputs\<close>

text \<open>
  An entry with one alternative, an event whose \<^verbatim>\<open>resultIndex\<close> is 0, and a parsed body
  with one string member.
\<close>

definition entry :: "bool \<Rightarrow> string \<Rightarrow> recognition_result" where
  "entry fin t = \<lparr>isFinal = fin, alternatives = [ascii t]\<rparr>"

definition heard :: "recognition_result list \<Rightarrow> recognition_event" where
  "heard rs = \<lparr>resultIndex = 0, results = rs\<rparr>"

definition member_only :: "string \<Rightarrow> string \<Rightarrow> fetched" where
  "member_only k t = Parsed (Object (\<lambda>k'. if k' = k then Str (ascii t) else Undefined))"

text \<open>Both pages with empty elements, loaded in a browser that has the recognition engine.\<close>

definition script_ready :: script_state where
  "script_ready =
     fst (script_load True
       \<lparr>recognition = None, recognizing = False, original = [], corrected = [],
        confidence = []\<rparr>)"

definition app_ready :: app_state where
  "app_ready =
     fst (app_load True False
       \<lparr>app_recognition = None, mediaRecorder = None, audioChunks = [], speechText = [],
        correctedText = []\<rparr>)"

section \<open>The loops of the two \<^verbatim>\<open>onresult\<close> handlers\<close>

lemma best_transcript_eq:
  "alternatives r \<noteq> [] \<Longrightarrow> best_transcript r = Inr (transcript r)"
  by (cases "alternatives r") (simp_all add: best_transcript_def transcript_def)

lemma best_transcript_none:
  "alternatives r = [] \<Longrightarrow> best_transcript r = Inl TypeError"
  by (simp add: best_transcript_def)

lemma script_loop_eq:
  "list_all (\<lambda>r. alternatives r \<noteq> []) (drop i (results event)) \<Longrightarrow>
   script_loop event i interim fin =
     Inr (interim @ concat (map transcript (filter (\<lambda>r. \<not> isFinal r) (drop i (results event)))),
          fin @ concat (map transcript (filter isFinal (drop i (results event)))))"
proof (induction event i interim fin rule: script_loop.induct)
  case (1 event i interim fin)
  show ?case
  proof (cases "i < length (results event)")
    case False
    then show ?thesis by (simp add: script_loop.simps)
  next
    case True
    then have d: "drop i (results event) = results event ! i # drop (Suc i) (results event)"
      by (simp add: Cons_nth_drop_Suc)
    with "1.prems" have alt: "alternatives (results event ! i) \<noteq> []"
      and rest: "list_all (\<lambda>r. alternatives r \<noteq> []) (drop (Suc i) (results event))"
      by simp_all
    have b: "best_transcript (results event ! i) = Inr (transcript (results event ! i))"
      using alt by (rule best_transcript_eq)
    show ?thesis
    proof (cases "isFinal (results event ! i)")
      case True
      from "1.IH"(1) [OF \<open>i < length (results event)\<close> b True rest]
      show ?thesis using \<open>i < length (results event)\<close> b True d
        by (subst script_loop.simps) simp
    next
      case False
      from "1.IH"(2) [OF \<open>i < length (results event)\<close> b False rest]
      show ?thesis using \<open>i < length (results event)\<close> b False d
        by (subst script_loop.simps) simp
    qed
  qed
qed

lemma script_loop_raises:
  "\<not> list_all (\<lambda>r. alternatives r \<noteq> []) (drop i (results event)) \<Longrightarrow>
   script_loop event i interim fin = Inl TypeError"
proof (induction event i interim fin rule: script_loop.induct)
  case (1 event i interim fin)
  show ?case
  proof (cases "i < length (results event)")
    case False
    with "1.prems" show ?thesis by simp
  next
    case True
    then have d: "drop i (results event) = results event ! i # drop (Suc i) (results event)"
      by (simp add: Cons_nth_drop_Suc)
    show ?thesis
    proof (cases "alternatives (results event ! i) = []")
      case True
      then show ?thesis using \<open>i < length (results event)\<close>
        by (subst script_loop.simps) (simp add: best_transcript_none)
    next
      case False
      then have b: "best_transcript (results event ! i) = Inr (transcript (results event ! i))"
        by (rule best_transcript_eq)
      from False "1.prems" d
      have rest: "\<not> list_all (\<lambda>r. alternatives r \<noteq> []) (drop (Suc i) (results event))"
        by simp
      show ?thesis
      proof (cases "isFinal (results event ! i)")
        case True
        from "1.IH"(1) [OF \<open>i < length (results event)\<close> b True rest]
        show ?thesis using \<open>i < length (results event)\<close> b True
          by (subst script_loop.simps) simp
      next
        case False
        from "1.IH"(2) [OF \<open>i < length (results event)\<close> b False rest]
        show ?thesis using \<open>i < length (results event)\<close> b False
          by (subst script_loop.simps) simp
      qed
    qed
  qed
qed

lemma app_loop_eq:
  "list_all (\<lambda>r. alternatives r \<noteq> []) (drop i (results event)) \<Longrightarrow>
   app_loop event i acc = Inr (acc @ concat (map transcript (drop i (results event))))"
proof (induction event i acc rule: app_loop.induct)
  case (1 event i acc)
  show ?case
  proof (cases "i < length (results event)")
    case False
    then show ?thesis by (simp add: app_loop.simps)
  next
    case True
    then have d: "drop i (results event) = results event ! i # drop (Suc i) (results event)"
      by (simp add: Cons_nth_drop_Suc)
    with "1.prems" have alt: "alternatives (results event ! i) \<noteq> []"
      and rest: "list_all (\<lambda>r. alternatives r \<noteq> []) (drop (Suc i) (results event))"
      by simp_all
    have b: "best_transcript (results event ! i) = Inr (transcript (results event ! i))"
      using alt by (rule best_transcript_eq)
    from "1.IH" [OF True b rest] show ?thesis using True b d
      by (subst app_loop.simps) simp
  qed
qed

lemma app_loop_raises:
  "\<not> list_all (\<lambda>r. alternatives r \<noteq> []) (drop i (results event)) \<Longrightarrow>
   app_loop event i acc = Inl TypeError"
proof (induction event i acc rule: app_loop.induct)
  case (1 event i acc)
  show ?case
  proof (cases "i < length (results event)")
    case False
    with "1.prems" show ?thesis by simp
  next
    case True
    then have d: "drop i (results event) = results event ! i # drop (Suc i) (results event)"
      by (simp add: Cons_nth_drop_Suc)
    show ?thesis
    proof (cases "alternatives (results event ! i) = []")
      case True
      then show ?thesis using \<open>i < length (results event)\<close>
        by (subst app_loop.simps) (simp add: best_transcript_none)
    next
      case False
      then have b: "best_transcript (results event ! i) = Inr (transcript (results event ! i))"
        by (rule best_transcript_eq)
      from False "1.prems" d
      have rest: "\<not> list_all (\<lambda>r. alternatives r \<noteq> []) (drop (Suc i) (results event))"
        by simp
      from "1.IH" [OF True b rest] show ?thesis using True b
        by (subst app_loop.simps) simp
    qed
  qed
qed

lemma script_display_eq:
  "script_display event =
     (if has_alternatives event
      then Inr (if final_segment event \<noteq> [] then final_segment event else interim_segment event)
      else Inl TypeError)"
proof (cases "has_alternatives event")
  case True
  then have "script_loop event (resultIndex event) [] [] =
      Inr (interim_segment event, final_segment event)"
    by (simp add: has_alternatives_def in_range_def final_segment_def interim_segment_def
        script_loop_eq)
  with True show ?thesis by (simp add: script_display_def)
next
  case False
  then have "script_loop event (resultIndex event) [] [] = Inl TypeError"
    by (simp add: has_alternatives_def in_range_def script_loop_raises)
  with False show ?thesis by (simp add: script_display_def)
qed

lemma app_transcript_eq:
  "app_loop event (resultIndex event) [] =
     (if has_alternatives event then Inr (concat (map transcript (in_range event)))
      else Inl TypeError)"
  by (simp add: has_alternatives_def in_range_def app_loop_eq app_loop_raises)

lemma trim_Nil_iff: "trim s = [] \<longleftrightarrow> (\<forall>c\<in>set s. js_whitespace c)"
proof -
  have "dropWhile P (rev (dropWhile P xs)) = [] \<longleftrightarrow> (\<forall>c\<in>set xs. P c)" for P :: "code_unit \<Rightarrow> bool" and xs
  proof
    assume a: "dropWhile P (rev (dropWhile P xs)) = []"
    show "\<forall>c\<in>set xs. P c"
    proof (rule ccontr)
      assume "\<not> (\<forall>c\<in>set xs. P c)"
      then have ne: "dropWhile P xs \<noteq> []" by (simp add: dropWhile_eq_Nil_conv)
      then have "\<not> P (hd (dropWhile P xs))" by (rule hd_dropWhile)
      moreover have "hd (dropWhile P xs) \<in> set (rev (dropWhile P xs))" using ne by simp
      ultimately show False using a by (auto simp: dropWhile_eq_Nil_conv)
    qed
  next
    assume "\<forall>c\<in>set xs. P c"
    then have "dropWhile P xs = []" using dropWhile_eq_Nil_conv by blast
    then show "dropWhile P (rev (dropWhile P xs)) = []"
      by (simp only: rev.simps dropWhile.simps)
  qed
  then show ?thesis by (simp add: trim_def)
qed

section \<open>The two \<^verbatim>\<open>onresult\<close> handlers on events with alternatives\<close>

lemma script_onresult_eq:
  "recognition s \<noteq> None \<Longrightarrow> has_alternatives event \<Longrightarrow>
   script_onresult event s =
     (s\<lparr>original := (if final_segment event \<noteq> [] then final_segment event
                       else interim_segment event)\<rparr>,
      [PostJson ''/process_text''
         (if final_segment event \<noteq> [] then final_segment event else interim_segment event)])"
  by (auto simp: script_onresult_def script_display_eq)

lemma app_onresult_eq:
  "app_recognition a \<noteq> None \<Longrightarrow> has_alternatives event \<Longrightarrow>
   app_onresult event a =
     (a\<lparr>speechText := concat (map transcript (in_range event))\<rparr>,
      if \<forall>c\<in>set (concat (map transcript (in_range event))). js_whitespace c then []
      else [PostJson ''/correct'' (concat (map transcript (in_range event)))])"
  by (auto simp: app_onresult_def app_transcript_eq trim_Nil_iff simp del: set_concat)

lemma ready_simps:
  "recognition script_ready \<noteq> None" "app_recognition app_ready \<noteq> None"
  "\<not> recognizing script_ready" "mediaRecorder app_ready = None"
  by (simp_all add: script_ready_def app_ready_def script_load_def app_load_def)

lemma heard_simps:
  "in_range (heard rs) = rs"
  "has_alternatives (heard (entry b t # rs)) = has_alternatives (heard rs)"
  "has_alternatives (heard [])"
  "transcript (entry b t) = ascii t"
  "isFinal (entry b t) = b"
  by (simp_all add: in_range_def heard_def has_alternatives_def entry_def transcript_def)

section \<open>Runs\<close>

lemma run_append:
  "run step s (es @ es') =
     (case run step s es of (s1, fx) \<Rightarrow> (case run step s1 es' of (s2, fx2) \<Rightarrow> (s2, fx @ fx2)))"
  by (induction es arbitrary: s) (auto split: prod.splits)

lemma run_snoc_state:
  "fst (run step s (es @ [e])) = fst (step e (fst (run step s es)))"
  by (simp add: run_append split: prod.splits)

section \<open>The two continuations that write \<^verbatim>\<open>correctedText\<close>\<close>

lemma member_only_simps:
  "app_correct_response (member_only ''corrected'' t) a =
     (a\<lparr>correctedText := [0x2705, 0x20] @ ascii t\<rparr>, [])"
  "app_emotion_response (member_only ''emotion'' t) a =
     (a\<lparr>correctedText := correctedText a @ emotion_line (Str (ascii t)), audioChunks := []\<rparr>, [])"
  "script_response (member_only ''highlighted'' t) s =
     (s\<lparr>corrected := ascii t, confidence := ascii ''undefined''\<rparr>, [])"
  by (simp_all add: member_only_def app_correct_response_def app_emotion_response_def
      script_response_def)


lemma app_correct_response_text:
  "correctedText (fst (app_correct_response r a)) = correctedText (fst (app_correct_response r a'))"
  by (simp add: app_correct_response_def split: fetched.splits body.splits)

lemma app_emotion_response_chunks:
  "audioChunks (fst (app_emotion_response r a)) = []"
  "mediaRecorder (fst (app_emotion_response r a)) = mediaRecorder a"
  by (simp_all add: app_emotion_response_def split: fetched.splits body.splits)

section \<open>One recording of \<^verbatim>\<open>app.js\<close>\<close>

lemma app_step_recorder:
  "mediaRecorder a \<noteq> None \<Longrightarrow> mediaRecorder (fst (app_step e a)) \<noteq> None"
  by (cases e)
    (auto simp: app_start_click_def app_media_granted_def app_media_denied_def
      app_ondataavailable_def app_onstop_def app_emotion_response_def app_stop_click_def
      app_onresult_def app_correct_response_def
      split: option.splits call_result.splits fetched.splits body.splits sum.splits)

lemma app_step_chunks:
  "mediaRecorder a \<noteq> None \<Longrightarrow> e \<noteq> MediaGranted \<Longrightarrow> \<forall>r. e \<noteq> EmotionResponse r \<Longrightarrow>
   audioChunks (fst (app_step e a)) = audioChunks a @ chunks_of [e]"
  by (cases e)
    (auto simp: app_start_click_def app_media_denied_def
      app_ondataavailable_def app_onstop_def app_stop_click_def
      app_onresult_def app_correct_response_def
      split: option.splits call_result.splits fetched.splits body.splits sum.splits)

lemma chunks_of_Cons: "chunks_of (e # es) = chunks_of [e] @ chunks_of es"
  by (cases e) simp_all

lemma other_event:
  "e \<noteq> MediaGranted \<Longrightarrow> \<forall>r. e \<noteq> EmotionResponse r \<Longrightarrow> \<forall>d. e \<noteq> DataAvailable d \<Longrightarrow>
   one_recording got (e # evs) = one_recording got evs \<and> chunks_of [e] = []"
  by (cases e) simp_all

lemma one_recording_chunks:
  "mediaRecorder a \<noteq> None \<Longrightarrow> one_recording got evs \<Longrightarrow> got \<or> audioChunks a = [] \<Longrightarrow>
   audioChunks (fst (run app_step a evs)) = audioChunks a @ chunks_of evs \<and>
   mediaRecorder (fst (run app_step a evs)) \<noteq> None"
proof (induction evs arbitrary: a got)
  case Nil
  then show ?case by simp
next
  case (Cons e evs)
  obtain a1 fx where step: "app_step e a = (a1, fx)" by (cases "app_step e a")
  have rec: "mediaRecorder a1 \<noteq> None"
    using app_step_recorder [OF Cons.prems(1), of e] step by simp
  have run: "fst (run app_step a (e # evs)) = fst (run app_step a1 evs)"
    using step by (simp split: prod.splits)
  consider (granted) "e = MediaGranted" | (emotion) r where "e = EmotionResponse r"
    | (data) d where "e = DataAvailable d"
    | (other) "e \<noteq> MediaGranted" "\<forall>r. e \<noteq> EmotionResponse r" "\<forall>d. e \<noteq> DataAvailable d"
    by blast
  then show ?case
  proof cases
    case granted
    with Cons.prems show ?thesis by simp
  next
    case emotion
    with Cons.prems(2) have ng: "\<not> got" and rest: "one_recording False evs" by auto
    from ng Cons.prems(3) have before: "audioChunks a = []" by simp
    have after: "audioChunks a1 = []"
      using step emotion app_emotion_response_chunks(1) [of r a] by simp
    from Cons.IH [OF rec rest] after
    have "audioChunks (fst (run app_step a1 evs)) = chunks_of evs \<and>
        mediaRecorder (fst (run app_step a1 evs)) \<noteq> None" by simp
    then show ?thesis using run emotion before by simp
  next
    case data
    with Cons.prems(2) have rest: "one_recording True evs" by simp
    have "audioChunks a1 = audioChunks a @ chunks_of [e]"
      using app_step_chunks [OF Cons.prems(1), of e] step data by simp
    with Cons.IH [OF rec rest] run show ?thesis
      by (simp add: chunks_of_Cons [of e evs])
  next
    case other
    from other_event [OF other, of got evs] Cons.prems(2)
    have rest: "one_recording got evs" and none: "chunks_of [e] = []" by simp_all
    have same: "audioChunks a1 = audioChunks a"
      using app_step_chunks [OF Cons.prems(1) other(1,2)] step none by simp
    with Cons.prems(3) have "got \<or> audioChunks a1 = []" by simp
    from Cons.IH [OF rec rest this] same run none show ?thesis
      by (simp add: chunks_of_Cons [of e evs])
  qed
qed

lemma only_onstop_posts_audio:
  "e \<noteq> RecorderStopped \<Longrightarrow> PostAudio u b \<notin> set (snd (app_step e a))"
  by (cases e)
    (auto simp: app_start_click_def app_media_granted_def app_media_denied_def
      app_ondataavailable_def app_emotion_response_def app_stop_click_def
      app_onresult_def app_correct_response_def
      split: option.splits call_result.splits fetched.splits body.splits sum.splits if_splits)

section \<open>Without a recognition object\<close>

lemma script_unsupported_step:
  "recognition s = None \<Longrightarrow> \<not> recognizing s \<Longrightarrow>
   recognition (fst (script_step e s)) = None \<and> \<not> recognizing (fst (script_step e s)) \<and>
   RecognitionStart \<notin> set (snd (script_step e s))"
  by (cases e)
    (auto simp: script_start_click_def script_stop_click_def script_onresult_def
      script_response_def split: fetched.splits body.splits)

lemma script_unsupported_run:
  "recognition s = None \<Longrightarrow> \<not> recognizing s \<Longrightarrow>
   \<not> recognizing (fst (run script_step s evs)) \<and>
   RecognitionStart \<notin> set (snd (run script_step s evs))"
proof (induction evs arbitrary: s)
  case Nil
  then show ?case by simp
next
  case (Cons e evs)
  obtain s1 fx where step: "script_step e s = (s1, fx)" by (cases "script_step e s")
  with script_unsupported_step [OF Cons.prems, of e]
  have "recognition s1 = None" "\<not> recognizing s1" "RecognitionStart \<notin> set fx" by simp_all
  with Cons.IH [of s1] step show ?case by (cases "run script_step s1 evs") simp
qed

lemma app_unsupported_step:
  "app_recognition a = None \<Longrightarrow> mediaRecorder a = None \<Longrightarrow>
   app_recognition (fst (app_step e a)) = None \<and> mediaRecorder (fst (app_step e a)) = None \<and>
   snd (app_step e a) = []"
  by (cases e)
    (simp_all add: app_start_click_def app_media_granted_def app_media_denied_def
      app_ondataavailable_def app_onstop_def app_stop_click_def app_onresult_def
      app_emotion_response_def app_correct_response_def split: fetched.splits body.splits)

lemma app_unsupported_run:
  "app_recognition a = None \<Longrightarrow> mediaRecorder a = None \<Longrightarrow>
   mediaRecorder (fst (run app_step a evs)) = None \<and> snd (run app_step a evs) = []"
proof (induction evs arbitrary: a)
  case Nil
  then show ?case by simp
next
  case (Cons e evs)
  obtain a1 fx where step: "app_step e a = (a1, fx)" by (cases "app_step e a")
  with app_unsupported_step [OF Cons.prems, of e]
  have "app_recognition a1 = None" "mediaRecorder a1 = None" "fx = []" by simp_all
  with Cons.IH [of a1] step show ?case by (cases "run app_step a1 evs") simp
qed

section \<open>While \<^verbatim>\<open>recognizing\<close> is set\<close>



section \<open>The claims\<close>

subsection \<open>C1: the text displayed for a recognition event\<close>

text \<open>
  C1, as amended. For every recognition event whose entries from \<^verbatim>\<open>resultIndex\<close> to the
  end each have a first alternative: \<^verbatim>\<open>script.js\<close> displays, in \<^verbatim>\<open>original\<close>, the
  concatenation in order of the transcripts of the final entries in range when that
  concatenation is not empty, and otherwise the concatenation in order of the transcripts
  of the entries that are not final. \<^verbatim>\<open>app.js\<close> never reads \<^verbatim>\<open>isFinal\<close>: it displays, in
  \<^verbatim>\<open>speechText\<close>, the concatenation in order of the transcripts of all the entries in
  range, final or not.
\<close>

theorem C1_display_text:
  "has_alternatives event \<Longrightarrow>
   script_display event =
     Inr (if final_segment event \<noteq> [] then final_segment event else interim_segment event) \<and>
   (recognition s \<noteq> None \<longrightarrow>
      original (fst (script_onresult event s)) =
        (if final_segment event \<noteq> [] then final_segment event else interim_segment event)) \<and>
   (app_recognition a \<noteq> None \<longrightarrow>
      speechText (fst (app_onresult event a)) = concat (map transcript (in_range event)))"
  by (simp add: script_display_eq script_onresult_eq app_onresult_eq)

text \<open>
  The theorem at the event of the specification's scenario, a final \<^verbatim>\<open>"hello "\<close> followed
  by an interim \<^verbatim>\<open>"wor"\<close>: \<^verbatim>\<open>script.js\<close> displays \<^verbatim>\<open>"hello "\<close>, \<^verbatim>\<open>app.js\<close> displays
  \<^verbatim>\<open>"hello wor"\<close>.
\<close>

theorem C1_display_text_witness:
  "has_alternatives (heard [entry True ''hello '', entry False ''wor'']) \<and>
   recognition script_ready \<noteq> None \<and> app_recognition app_ready \<noteq> None \<and>
   script_display (heard [entry True ''hello '', entry False ''wor'']) = Inr (ascii ''hello '') \<and>
   original (fst (script_onresult (heard [entry True ''hello '', entry False ''wor''])
      script_ready)) = ascii ''hello '' \<and>
   speechText (fst (app_onresult (heard [entry True ''hello '', entry False ''wor''])
      app_ready)) = ascii ''hello wor''"
  using C1_display_text [of "heard [entry True ''hello '', entry False ''wor'']"
      script_ready app_ready]
  by (simp add: heard_simps ready_simps final_segment_def interim_segment_def ascii_def)

text \<open>
  C1 as stated fails on \<^verbatim>\<open>app.js\<close>: at the same event the final entries concatenate to
  the non-empty \<^verbatim>\<open>"hello "\<close>, and the interim entry is displayed all the same.
\<close>

theorem C1_app_counterexample:
  "final_segment (heard [entry True ''hello '', entry False ''wor'']) = ascii ''hello '' \<and>
   speechText (fst (app_onresult (heard [entry True ''hello '', entry False ''wor''])
      app_ready)) = ascii ''hello wor'' \<and>
   speechText (fst (app_onresult (heard [entry True ''hello '', entry False ''wor''])
      app_ready)) \<noteq> final_segment (heard [entry True ''hello '', entry False ''wor''])"
  by (simp add: app_onresult_eq heard_simps ready_simps final_segment_def ascii_def)

subsection \<open>C2: the order in which responses are applied\<close>

text \<open>
  C2, as amended. No correction request carries a sequence number: its body is the text
  alone. A response is applied when it arrives, whatever request it answers, and no
  response is ever dropped: after any run that ends with the arrival of a response, the
  field \<^verbatim>\<open>correctedText\<close> of \<^verbatim>\<open>app.js\<close> is what that response alone dictates, for any
  earlier events and any request number, and the field \<^verbatim>\<open>corrected\<close> of \<^verbatim>\<open>script.js\<close> is
  the \<^verbatim>\<open>highlighted\<close> member of the last body that parsed. The number of the request
  changes nothing in either program.
\<close>

theorem C2_last_arrival_wins:
  "correctedText (fst (run app_step a (evs @ [CorrectResponse n r]))) =
     correctedText (fst (app_correct_response r a')) \<and>
   corrected (fst (run script_step s (evs' @ [Response n (Parsed (Object data))]))) =
     dom_string (data ''highlighted'') \<and>
   app_step (CorrectResponse n r) a = app_step (CorrectResponse m r) a \<and>
   script_step (Response n r) s = script_step (Response m r) s"
proof -
  have "correctedText (fst (run app_step a (evs @ [CorrectResponse n r]))) =
      correctedText (fst (app_correct_response r a'))"
    unfolding run_snoc_state app_step.simps by (rule app_correct_response_text)
  moreover have "corrected (fst (run script_step s (evs' @ [Response n (Parsed (Object data))]))) =
      dom_string (data ''highlighted'')"
    by (simp add: run_snoc_state script_response_def)
  ultimately show ?thesis by simp
qed

text \<open>
  C2 as stated fails. Three events issue the requests 1, 2 and 3 in that order, each
  carrying only its text; the responses arrive in the order 1, 3, 2. The response to
  request 2, the last to arrive, overwrites that to request 3: the field ends on the
  older text.
\<close>

theorem C2_counterexample:
  "run app_step app_ready
     [AppResult (heard [entry True ''a'']), AppResult (heard [entry True ''ab'']),
      AppResult (heard [entry True ''abc'']),
      CorrectResponse 1 (member_only ''corrected'' ''A''),
      CorrectResponse 3 (member_only ''corrected'' ''ABC''),
      CorrectResponse 2 (member_only ''corrected'' ''AB'')] =
     (app_ready\<lparr>speechText := ascii ''abc'', correctedText := [0x2705, 0x20] @ ascii ''AB''\<rparr>,
      [PostJson ''/correct'' (ascii ''a''), PostJson ''/correct'' (ascii ''ab''),
       PostJson ''/correct'' (ascii ''abc'')]) \<and>
   [0x2705, 0x20] @ ascii ''AB'' \<noteq> [0x2705, 0x20] @ ascii ''ABC''"
  by (simp add: app_onresult_eq member_only_simps heard_simps ready_simps ascii_def
      js_whitespace_def)

subsection \<open>C3: one analysis request per recording\<close>

text \<open>
  C3. Take any state of \<^verbatim>\<open>app.js\<close> with a recognition object, whatever chunks an earlier
  recording left in \<^verbatim>\<open>audioChunks\<close>, and the events of one recording: \<^verbatim>\<open>getUserMedia\<close>
  resolves, then any events \<open>evs\<close> of one recording follow (chunks, recognition results,
  responses to correction requests, clicks, and responses to earlier analysis requests
  as long as no chunk has been delivered yet), then the recorder's stop event fires. The
  stop event issues exactly one request, to \<^verbatim>\<open>/emotion\<close>, and its blob consists of exactly
  the chunks delivered in \<open>evs\<close>, all of them and in order: none of an earlier recording,
  and none of a later one, the blob being built when the stop event fires. No other
  event of the program issues an analysis request.
\<close>

theorem C3_one_request_per_recording:
  "app_recognition a \<noteq> None \<Longrightarrow> one_recording False evs \<Longrightarrow>
   snd (app_step RecorderStopped (fst (run app_step a (MediaGranted # evs)))) =
     [PostAudio ''/emotion'' (Blob (chunks_of evs) ''audio/wav'')] \<and>
   (\<forall>e a' u b. e \<noteq> RecorderStopped \<longrightarrow> PostAudio u b \<notin> set (snd (app_step e a')))"
proof -
  assume sup: "app_recognition a \<noteq> None" and one: "one_recording False evs"
  obtain a1 where a1: "a1 = fst (app_step MediaGranted a)" by simp
  with sup have rec: "mediaRecorder a1 \<noteq> None" and empty: "audioChunks a1 = []"
    by (auto simp: app_media_granted_def)
  have "fst (run app_step a (MediaGranted # evs)) = fst (run app_step a1 evs)"
    using a1 by (simp split: prod.splits)
  moreover from one_recording_chunks [OF rec one] empty
  have "audioChunks (fst (run app_step a1 evs)) = chunks_of evs"
    and "mediaRecorder (fst (run app_step a1 evs)) \<noteq> None" by simp_all
  ultimately have "snd (app_step RecorderStopped (fst (run app_step a (MediaGranted # evs)))) =
     [PostAudio ''/emotion'' (Blob (chunks_of evs) ''audio/wav'')]"
    by (auto simp: app_onstop_def)
  then show ?thesis using only_onstop_posts_audio by blast
qed

text \<open>
  The theorem at a recording that starts with a chunk of an earlier recording still in
  \<^verbatim>\<open>audioChunks\<close>, during which an earlier analysis request fails and two chunks are
  delivered: the blob holds the two chunks.
\<close>

theorem C3_one_request_per_recording_witness:
  "app_recognition (app_ready\<lparr>audioChunks := [[9]]\<rparr>) \<noteq> None \<and>
   one_recording False
     [EmotionResponse Rejected, AppResult (heard [entry True ''hi'']), AppStopClick,
      DataAvailable [1, 2], DataAvailable [3]] \<and>
   snd (app_step RecorderStopped (fst (run app_step (app_ready\<lparr>audioChunks := [[9]]\<rparr>)
     (MediaGranted #
      [EmotionResponse Rejected, AppResult (heard [entry True ''hi'']), AppStopClick,
       DataAvailable [1, 2], DataAvailable [3]])))) =
     [PostAudio ''/emotion'' (Blob [[1, 2], [3]] ''audio/wav'')]"
  using C3_one_request_per_recording [of "app_ready\<lparr>audioChunks := [[9]]\<rparr>"
      "[EmotionResponse Rejected, AppResult (heard [entry True ''hi'']), AppStopClick,
        DataAvailable [1, 2], DataAvailable [3]]"]
  by (simp add: ready_simps)

text \<open>
  Why \<open>one_recording\<close> excludes a response after a chunk: line 63 empties
  \<^verbatim>\<open>audioChunks\<close> when an analysis request ends, whichever recording it belonged to.
\<close>

lemma late_analysis_response_empties_chunks:
  "snd (app_step RecorderStopped (fst (run app_step app_ready
     [MediaGranted, DataAvailable [1], EmotionResponse Rejected]))) =
     [PostAudio ''/emotion'' (Blob [] ''audio/wav'')]"
  by (simp add: app_ready_def app_load_def app_media_granted_def app_ondataavailable_def
      app_emotion_response_def app_onstop_def)

subsection \<open>C4: stopping when nothing is recording\<close>

text \<open>
  C4, as amended. In \<^verbatim>\<open>script.js\<close>, a click on the stop button while \<^verbatim>\<open>recognizing\<close> is
  false is a no-op: it changes nothing and calls nothing. In \<^verbatim>\<open>app.js\<close> the click has no
  guard and is not a no-op. While the recorder is not recording it leaves every variable
  and both page elements as they were and issues no request, but it calls
  \<^verbatim>\<open>recognition.stop()\<close>, which ends a recognition that is running, and then
  \<^verbatim>\<open>mediaRecorder.stop()\<close>: on the inactive recorder when there is one, and with an
  uncaught \<open>TypeError\<close> when no recorder was ever created. These are all its effects.
  Without a recognition object \<^verbatim>\<open>app.js\<close> has no handler for the click and nothing
  happens.
\<close>

theorem C4_stop_when_not_recording:
  "(\<not> recognizing s \<longrightarrow> script_stop_click s = (s, [])) \<and>
   (app_recognition a \<noteq> None \<and> mediaRecorder a = None \<longrightarrow>
      app_stop_click a = (a, [RecognitionStop, Uncaught TypeError])) \<and>
   (app_recognition a \<noteq> None \<and> mediaRecorder a = Some Inactive \<longrightarrow>
      app_stop_click a = (a, [RecognitionStop, MediaRecorderStop])) \<and>
   (app_recognition a = None \<longrightarrow> app_stop_click a = (a, []))"
proof -
  have "a\<lparr>mediaRecorder := Some Inactive\<rparr> = a" if "mediaRecorder a = Some Inactive"
    using that by (cases a) simp
  then show ?thesis
    by (auto simp: script_stop_click_def app_stop_click_def split: option.splits)
qed

text \<open>
  The theorem on the freshly loaded pages, where nothing was ever started, on \<^verbatim>\<open>app.js\<close>
  with an inactive recorder, and on \<^verbatim>\<open>app.js\<close> without a recognition object.
\<close>

theorem C4_stop_when_not_recording_witness:
  "\<not> recognizing script_ready \<and> script_stop_click script_ready = (script_ready, []) \<and>
   app_recognition app_ready \<noteq> None \<and> mediaRecorder app_ready = None \<and>
   app_stop_click app_ready = (app_ready, [RecognitionStop, Uncaught TypeError]) \<and>
   app_recognition (app_ready\<lparr>mediaRecorder := Some Inactive\<rparr>) \<noteq> None \<and>
   mediaRecorder (app_ready\<lparr>mediaRecorder := Some Inactive\<rparr>) = Some Inactive \<and>
   app_stop_click (app_ready\<lparr>mediaRecorder := Some Inactive\<rparr>) =
     (app_ready\<lparr>mediaRecorder := Some Inactive\<rparr>, [RecognitionStop, MediaRecorderStop]) \<and>
   app_recognition (app_ready\<lparr>app_recognition := None\<rparr>) = None \<and>
   app_stop_click (app_ready\<lparr>app_recognition := None\<rparr>) =
     (app_ready\<lparr>app_recognition := None\<rparr>, [])"
  using C4_stop_when_not_recording [of script_ready app_ready]
    C4_stop_when_not_recording [of script_ready "app_ready\<lparr>mediaRecorder := Some Inactive\<rparr>"]
    C4_stop_when_not_recording [of script_ready "app_ready\<lparr>app_recognition := None\<rparr>"]
  by (simp add: ready_simps)

text \<open>
  C4 as stated fails on \<^verbatim>\<open>app.js\<close>. On the freshly loaded page, where no recording was
  ever started, the click on the stop button calls \<^verbatim>\<open>recognition.stop()\<close> and raises a
  \<open>TypeError\<close>. After a click on the start button whose \<^verbatim>\<open>getUserMedia\<close> is rejected,
  recognition runs and there is no recorder: the click on the stop button then stops the
  recognition.
\<close>

theorem C4_counterexample:
  "mediaRecorder app_ready \<noteq> Some Recording \<and>
   app_stop_click app_ready = (app_ready, [RecognitionStop, Uncaught TypeError]) \<and>
   app_stop_click app_ready \<noteq> (app_ready, []) \<and>
   mediaRecorder (fst (run app_step app_ready [AppStartClick Returned, MediaDenied])) = None \<and>
   snd (run app_step app_ready [AppStartClick Returned, MediaDenied, AppStopClick]) =
     [RecognitionStart, GetUserMedia, Uncaught MediaError, RecognitionStop, Uncaught TypeError]"
  by (simp add: ready_simps app_stop_click_def app_start_click_def app_media_denied_def
      split: option.splits)

subsection \<open>C5: which updates issue a correction request\<close>

text \<open>
  C5, as amended. For every recognition event whose entries in range each have a first
  alternative: \<^verbatim>\<open>script.js\<close> issues exactly one request, carrying the displayed text,
  also when that text is empty; \<^verbatim>\<open>app.js\<close> issues exactly one request, carrying the
  displayed text, if the text has a character that is not white space, and none
  otherwise.
\<close>

theorem C5_dispatch:
  "has_alternatives event \<Longrightarrow>
   (recognition s \<noteq> None \<longrightarrow>
      snd (script_onresult event s) =
        [PostJson ''/process_text''
           (if final_segment event \<noteq> [] then final_segment event else interim_segment event)]) \<and>
   (app_recognition a \<noteq> None \<longrightarrow>
      snd (app_onresult event a) =
        (if \<exists>c\<in>set (concat (map transcript (in_range event))). \<not> js_whitespace c
         then [PostJson ''/correct'' (concat (map transcript (in_range event)))] else []))"
  by (simp add: script_onresult_eq app_onresult_eq del: set_concat)

text \<open>
  The theorem at an event with no entry, where \<^verbatim>\<open>script.js\<close> sends the empty text and
  \<^verbatim>\<open>app.js\<close> sends nothing, and at an event with the one entry \<^verbatim>\<open>"hi"\<close>.
\<close>

theorem C5_dispatch_witness:
  "has_alternatives (heard []) \<and> has_alternatives (heard [entry True ''hi'']) \<and>
   recognition script_ready \<noteq> None \<and> app_recognition app_ready \<noteq> None \<and>
   snd (script_onresult (heard []) script_ready) = [PostJson ''/process_text'' []] \<and>
   snd (app_onresult (heard []) app_ready) = [] \<and>
   snd (script_onresult (heard [entry True ''hi'']) script_ready) =
     [PostJson ''/process_text'' (ascii ''hi'')] \<and>
   snd (app_onresult (heard [entry True ''hi'']) app_ready) = [PostJson ''/correct'' (ascii ''hi'')]"
  using C5_dispatch [of "heard []" script_ready app_ready]
    C5_dispatch [of "heard [entry True ''hi'']" script_ready app_ready]
  by (simp add: heard_simps ready_simps final_segment_def interim_segment_def ascii_def
      js_whitespace_def)

text \<open>
  C5 as stated fails in both programs: \<^verbatim>\<open>script.js\<close> issues a request for the empty
  displayed text of an event with no entry, and \<^verbatim>\<open>app.js\<close> issues none for the
  displayed text \<^verbatim>\<open>" "\<close>, which is not empty.
\<close>

theorem C5_counterexample:
  "script_display (heard []) = Inr [] \<and>
   snd (script_onresult (heard []) script_ready) = [PostJson ''/process_text'' []] \<and>
   speechText (fst (app_onresult (heard [entry True '' '']) app_ready)) = ascii '' '' \<and>
   ascii '' '' \<noteq> [] \<and>
   snd (app_onresult (heard [entry True '' '']) app_ready) = []"
  by (simp add: script_display_eq script_onresult_eq app_onresult_eq heard_simps ready_simps
      final_segment_def interim_segment_def ascii_def js_whitespace_def)

subsection \<open>C6: what each response stream writes\<close>



subsection \<open>C7: a correction request that fails\<close>

text \<open>
  C7, as amended. When a correction request fails on the network or on parsing: \<^verbatim>\<open>app.js\<close>
  catches the failure and replaces the whole of \<^verbatim>\<open>correctedText\<close> by the error marker,
  changing nothing else and issuing no request, and the next recognition event issues
  the same requests as it would have without the failure. \<^verbatim>\<open>script.js\<close> does not catch
  the failure: no element changes, no marker is shown, no request is issued again, and
  the next recognition event issues the same requests as it would have without the
  failure.
\<close>

theorem C7_correction_failure:
  "r = Rejected \<or> r = Unparsable \<Longrightarrow>
   app_correct_response r a = (a\<lparr>correctedText := grammar_error\<rparr>, []) \<and>
   snd (app_onresult event (fst (app_correct_response r a))) = snd (app_onresult event a) \<and>
   fst (script_response r s) = s \<and>
   (\<forall>u t. PostJson u t \<notin> set (snd (script_response r s))) \<and>
   snd (script_onresult event (fst (script_response r s))) = snd (script_onresult event s)"
  by (auto simp: app_correct_response_def script_response_def app_onresult_def
      split: option.splits sum.splits)

text \<open>The theorem for both kinds of failure, on the freshly loaded pages.\<close>

theorem C7_correction_failure_witness:
  "app_correct_response Rejected app_ready = (app_ready\<lparr>correctedText := grammar_error\<rparr>, []) \<and>
   app_correct_response Unparsable app_ready = (app_ready\<lparr>correctedText := grammar_error\<rparr>, []) \<and>
   snd (app_onresult (heard [entry True ''hi'']) (fst (app_correct_response Rejected app_ready))) =
     [PostJson ''/correct'' (ascii ''hi'')] \<and>
   fst (script_response Rejected script_ready) = script_ready \<and>
   fst (script_response Unparsable script_ready) = script_ready \<and>
   snd (script_onresult (heard [entry True ''hi''])
     (fst (script_response Unparsable script_ready))) =
     [PostJson ''/process_text'' (ascii ''hi'')]"
  using C7_correction_failure [of Rejected app_ready "heard [entry True ''hi'']" script_ready]
    C7_correction_failure [of Unparsable app_ready "heard [entry True ''hi'']" script_ready]
  by (simp add: app_onresult_eq script_onresult_eq heard_simps ready_simps final_segment_def
      ascii_def js_whitespace_def)

text \<open>
  C7 as stated fails twice. In \<^verbatim>\<open>script.js\<close> a failed request leaves the field
  \<^verbatim>\<open>corrected\<close> as it was, with no marker. In \<^verbatim>\<open>app.js\<close> the marker replaces the whole
  element, and with it the analysis line that was appended before.
\<close>

theorem C7_counterexample:
  "script_response Rejected (script_ready\<lparr>corrected := ascii ''ok''\<rparr>) =
     (script_ready\<lparr>corrected := ascii ''ok''\<rparr>, [Uncaught TypeError]) \<and>
   correctedText (fst (app_correct_response Rejected
     (fst (app_emotion_response (member_only ''emotion'' ''calm'') app_ready)))) = grammar_error \<and>
   \<not> suffix (emotion_line (Str (ascii ''calm''))) grammar_error"
  by (simp add: script_response_def app_correct_response_def member_only_simps
      emotion_line_def grammar_error_def suffix_def ascii_def)

subsection \<open>C8: without the recognition capability\<close>

text \<open>
  C8. When the browser has no recognition engine, both programs raise an alert while
  they load, before any click. In \<^verbatim>\<open>script.js\<close>, whatever happens afterwards,
  \<^verbatim>\<open>recognizing\<close> stays false and \<^verbatim>\<open>recognition.start()\<close> is never called; in particular a
  click on the start button leaves \<^verbatim>\<open>recognizing\<close> false. In \<^verbatim>\<open>app.js\<close>, whatever happens
  afterwards, no recorder is ever created and nothing at all is called.
\<close>

theorem C8_capability_absent:
  "snd (script_load False page) =
     [Alert (ascii ''Your browser does not support Speech Recognition.'')] \<and>
   \<not> recognizing (fst (run script_step (fst (script_load False page)) evs)) \<and>
   RecognitionStart \<notin> set (snd (run script_step (fst (script_load False page)) evs)) \<and>
   recognizing (fst (script_start_click answer (fst (script_load False page)))) = False \<and>
   snd (app_load False False page') =
     [Alert (0x274C # ascii '' Speech Recognition not supported in this browser. Use Chrome.'')] \<and>
   mediaRecorder (fst (run app_step (fst (app_load False False page')) evs')) = None \<and>
   snd (run app_step (fst (app_load False False page')) evs') = []"
proof -
  have s: "recognition (fst (script_load False page)) = None"
    "\<not> recognizing (fst (script_load False page))"
    by (simp_all add: script_load_def)
  have a: "app_recognition (fst (app_load False False page')) = None"
    "mediaRecorder (fst (app_load False False page')) = None"
    by (simp_all add: app_load_def)
  have "recognizing (fst (script_start_click answer (fst (script_load False page)))) = False"
    using s by (simp add: script_start_click_def)
  moreover have "snd (script_load False page) =
     [Alert (ascii ''Your browser does not support Speech Recognition.'')]"
    by (simp add: script_load_def)
  moreover have "snd (app_load False False page') =
     [Alert (0x274C # ascii '' Speech Recognition not supported in this browser. Use Chrome.'')]"
    by (simp add: app_load_def)
  ultimately show ?thesis
    using script_unsupported_run [OF s, of evs] app_unsupported_run [OF a, of evs'] by simp
qed

subsection \<open>C9: starting twice in \<^verbatim>\<open>script.js\<close>\<close>



subsection \<open>C10: the guard of \<^verbatim>\<open>app.js\<close> looks at the trimmed transcript\<close>

text \<open>
  C10. In \<^verbatim>\<open>app.js\<close>, for every recognition event whose entries in range each have a
  first alternative: when the concatenated transcript is not empty and consists of white
  space only, \<^verbatim>\<open>speechText\<close> becomes that transcript, no request is issued and nothing
  else changes, \<^verbatim>\<open>correctedText\<close> included; when the transcript has a character that is
  not white space, the one request issued carries the transcript as it is, not trimmed.
\<close>

theorem C10_whitespace_guard:
  "app_recognition a \<noteq> None \<Longrightarrow> has_alternatives event \<Longrightarrow>
   (concat (map transcript (in_range event)) \<noteq> [] \<and>
    (\<forall>c\<in>set (concat (map transcript (in_range event))). js_whitespace c) \<longrightarrow>
      app_onresult event a = (a\<lparr>speechText := concat (map transcript (in_range event))\<rparr>, [])) \<and>
   ((\<exists>c\<in>set (concat (map transcript (in_range event))). \<not> js_whitespace c) \<longrightarrow>
      app_onresult event a =
        (a\<lparr>speechText := concat (map transcript (in_range event))\<rparr>,
         [PostJson ''/correct'' (concat (map transcript (in_range event)))]))"
  by (simp add: app_onresult_eq del: set_concat)

text \<open>
  The theorem at a transcript of three spaces, and at \<^verbatim>\<open>" hi "\<close>, which is sent with its
  spaces.
\<close>

theorem C10_whitespace_guard_witness:
  "app_recognition app_ready \<noteq> None \<and>
   has_alternatives (heard [entry False '' '', entry False ''  '']) \<and>
   has_alternatives (heard [entry True '' hi '']) \<and>
   app_onresult (heard [entry False '' '', entry False ''  '']) app_ready =
     (app_ready\<lparr>speechText := ascii ''   ''\<rparr>, []) \<and>
   correctedText (fst (app_onresult (heard [entry False '' '', entry False ''  '']) app_ready)) =
     correctedText app_ready \<and>
   app_onresult (heard [entry True '' hi '']) app_ready =
     (app_ready\<lparr>speechText := ascii '' hi ''\<rparr>, [PostJson ''/correct'' (ascii '' hi '')]) \<and>
   trim (ascii '' hi '') = ascii ''hi''"
  using C10_whitespace_guard [of app_ready "heard [entry False '' '', entry False ''  '']"]
    C10_whitespace_guard [of app_ready "heard [entry True '' hi '']"]
  by (simp add: heard_simps ready_simps ascii_def js_whitespace_def trim_def)

end
